theory Spec2Isabelle
  imports Main "HOL-Library.AList" "HOL-Library.Sublist"
begin

section \<open>Python values and the literals of the settings module\<close>

text \<open>
  A text string is a sequence of Unicode code points, a byte string a sequence of bytes.
  The file declares \<^verbatim>\<open># -*- coding: utf-8 -*-\<close>, so the bytes between the quotes of a
  string literal are decoded as UTF-8 when the literal denotes text.
\<close>

type_synonym unicode = "nat list"

datatype pyval =
    Str unicode
  | Bytes string
  | NoneV
  | Bool bool
  | Tuple "pyval list"
  | Feature string

text \<open>
  \<open>StrLit u bs\<close> is a string literal with the bytes \<open>bs\<close> between its quotes;
  \<open>u\<close> says whether it carries the prefix \<^verbatim>\<open>u\<close>.
\<close>

datatype expr =
    StrLit bool string
  | NoneLit
  | BoolLit bool
  | TupleLit "expr list"

text \<open>The logical lines of a module: only the forms that pelicanconf.py uses.\<close>

datatype line =
    Blank
  | Comment string
  | FromImport string string
  | Assign string expr

subsection \<open>Decoding UTF-8\<close>

definition cont :: "nat \<Rightarrow> bool" where
  "cont b = (0x80 \<le> b \<and> b < 0xC0)"

definition scalar :: "nat \<Rightarrow> nat \<Rightarrow> bool" where
  "scalar lo c = (lo \<le> c \<and> c < 0x110000 \<and> \<not> (0xD800 \<le> c \<and> c < 0xE000))"

fun utf8_decode :: "nat list \<Rightarrow> unicode option" where
  "utf8_decode [] = Some []"
| "utf8_decode (b # bs) =
    (if b < 0x80 then map_option ((#) b) (utf8_decode bs)
     else if 0xC0 \<le> b \<and> b < 0xE0 then
       (case bs of
          b1 # r \<Rightarrow>
            (let c = (b - 0xC0) * 0x40 + (b1 - 0x80)
             in if cont b1 \<and> scalar 0x80 c
                then map_option ((#) c) (utf8_decode r) else None)
        | _ \<Rightarrow> None)
     else if 0xE0 \<le> b \<and> b < 0xF0 then
       (case bs of
          b1 # b2 # r \<Rightarrow>
            (let c = (b - 0xE0) * 0x1000 + (b1 - 0x80) * 0x40 + (b2 - 0x80)
             in if cont b1 \<and> cont b2 \<and> scalar 0x800 c
                then map_option ((#) c) (utf8_decode r) else None)
        | _ \<Rightarrow> None)
     else if 0xF0 \<le> b \<and> b < 0xF8 then
       (case bs of
          b1 # b2 # b3 # r \<Rightarrow>
            (let c = (b - 0xF0) * 0x40000 + (b1 - 0x80) * 0x1000
                     + (b2 - 0x80) * 0x40 + (b3 - 0x80)
             in if cont b1 \<and> cont b2 \<and> cont b3 \<and> scalar 0x10000 c
                then map_option ((#) c) (utf8_decode r) else None)
        | _ \<Rightarrow> None)
     else None)"

definition bytes_of :: "string \<Rightarrow> nat list" where
  "bytes_of s = map of_char s"

subsection \<open>Evaluating literals, executing lines\<close>

text \<open>
  The flag of \<open>eval_expr\<close> is the compiler flag that \<^verbatim>\<open>from __future__ import
  unicode_literals\<close> sets: with it every string literal is text; without it Python 2
  reads an unprefixed literal as a byte string.
\<close>

fun eval_expr :: "bool \<Rightarrow> expr \<Rightarrow> pyval option" where
  "eval_expr f (StrLit u bs) =
     (if u \<or> f then map_option Str (utf8_decode (bytes_of bs)) else Some (Bytes bs))"
| "eval_expr f NoneLit = Some NoneV"
| "eval_expr f (BoolLit b) = Some (Bool b)"
| "eval_expr f (TupleLit es) = map_option Tuple (those (map (eval_expr f) es))"

text \<open>
  The state of a module while it runs: the compiler flag and the namespace, the names bound
  so far with their values, in the order of their first binding (a Python dictionary).
\<close>

record module_state =
  unicode_literals :: bool
  namespace :: "(string \<times> pyval) list"

definition bind_name :: "string \<Rightarrow> pyval \<Rightarrow> module_state \<Rightarrow> module_state" where
  "bind_name x v st = st\<lparr>namespace := AList.update x v (namespace st)\<rparr>"

text \<open>
  A blank line and a comment do nothing. The import from \<^verbatim>\<open>__future__\<close> sets the flag and
  binds the name of the feature; no other import occurs in the file, and none is modelled.
  An assignment evaluates its right-hand side and binds the name; a literal that does not
  decode is an error (\<open>None\<close>).
\<close>

fun exec_line :: "line \<Rightarrow> module_state \<Rightarrow> module_state option" where
  "exec_line Blank st = Some st"
| "exec_line (Comment c) st = Some st"
| "exec_line (FromImport m n) st =
     (if m = ''__future__'' \<and> n = ''unicode_literals''
      then Some (bind_name n (Feature n) (st\<lparr>unicode_literals := True\<rparr>))
      else None)"
| "exec_line (Assign x e) st =
     (case eval_expr (unicode_literals st) e of
        None \<Rightarrow> None
      | Some v \<Rightarrow> Some (bind_name x v st))"

fun exec_module :: "line list \<Rightarrow> module_state \<Rightarrow> module_state option" where
  "exec_module [] st = Some st"
| "exec_module (l # ls) st =
     (case exec_line l st of None \<Rightarrow> None | Some st' \<Rightarrow> exec_module ls st')"

definition fresh :: module_state where
  "fresh = \<lparr>unicode_literals = False, namespace = []\<rparr>"

section \<open>pelicanconf.py\<close>

text \<open>
  The 39 lines of \<^verbatim>\<open>src/site/pelicanconf.py\<close>, one element for each logical line (the
  tuples of \<^verbatim>\<open>LINKS\<close> and \<^verbatim>\<open>SOCIAL\<close> span several physical lines). A comment is kept
  with its text after the \<^verbatim>\<open>#\<close>; a string literal with the bytes the file has between
  the quotes, the last literal of \<^verbatim>\<open>LINKS\<close> with the six bytes E0 B8 A2 E0 B8 87 at its
  end.
\<close>

definition pelicanconf :: "line list" where
  "pelicanconf =
   [ Comment ''!/usr/bin/env python'',
     Comment '' -*- coding: utf-8 -*- #'',
     FromImport ''__future__'' ''unicode_literals'',
     Blank,
     Assign ''AUTHOR'' (StrLit True ''greg nicol''),
     Assign ''SITENAME'' (StrLit True ''INSERT INTO /dev/null ...''),
     Assign ''SITEURL'' (StrLit False []),
     Blank,
     Assign ''PATH'' (StrLit False ''content''),
     Blank,
     Assign ''TIMEZONE'' (StrLit False ''Europe/Paris''),
     Blank,
     Assign ''DEFAULT_LANG'' (StrLit True ''en''),
     Blank,
     Comment '' Feed generation is usually not desired when developing'',
     Assign ''FEED_ALL_ATOM'' NoneLit,
     Assign ''CATEGORY_FEED_ATOM'' NoneLit,
     Assign ''TRANSLATION_FEED_ATOM'' NoneLit,
     Assign ''AUTHOR_FEED_ATOM'' NoneLit,
     Assign ''AUTHOR_FEED_RSS'' NoneLit,
     Blank,
     Comment '' Blogroll'',
     Assign ''LINKS'' (TupleLit
       [ TupleLit [StrLit False ''Pelican'', StrLit False ''http://getpelican.com/''],
         TupleLit [StrLit False ''Python.org'', StrLit False ''http://python.org/''],
         TupleLit [StrLit False ''Jinja2'', StrLit False ''http://jinja.pocoo.org/''],
         TupleLit [StrLit False ''CloudFlare'',
                   StrLit False (''https://www.cloudflare.com/''
                     @ [CHR 0xE0, CHR 0xB8, CHR 0xA2, CHR 0xE0, CHR 0xB8, CHR 0x87])] ]),
     Blank,
     Comment '' Social widget'',
     Assign ''SOCIAL'' (TupleLit
       [ TupleLit [StrLit False ''github'', StrLit False ''https://github.com/gregn610''],
         TupleLit [StrLit False ''linkedin'',
                   StrLit False ''https://www.linkedin.com/in/greg-nicol-087a438/''] ]),
     Blank,
     Assign ''DEFAULT_PAGINATION'' (BoolLit False),
     Blank,
     Comment '' Uncomment following line if you want document-relative URLs when developing'',
     Comment ''RELATIVE_URLS = True'',
     Blank,
     Assign ''THEME'' (StrLit False ''themes/pelican-sober'') ]"

text \<open>Importing the module runs its lines from a fresh state.\<close>

definition load :: "module_state option" where
  "load = exec_module pelicanconf fresh"

text \<open>The value of a name in the loaded module, \<open>None\<close> when it has none.\<close>

definition setting :: "string \<Rightarrow> pyval option" where
  "setting k = (case load of None \<Rightarrow> None | Some st \<Rightarrow> map_of (namespace st) k)"

text \<open>The text string whose code points are the (ASCII) characters of \<open>s\<close>.\<close>

definition u :: "string \<Rightarrow> unicode" where
  "u s = map of_char s"


section \<open>Reading the loaded settings\<close>

definition nonempty_str :: "pyval \<Rightarrow> bool" where
  "nonempty_str v = (case v of Str s \<Rightarrow> s \<noteq> [] | Bytes b \<Rightarrow> b \<noteq> [] | _ \<Rightarrow> False)"

definition string_pair :: "pyval \<Rightarrow> bool" where
  "string_pair v =
     (case v of Tuple [a, b] \<Rightarrow> nonempty_str a \<and> nonempty_str b | _ \<Rightarrow> False)"

definition pair_sequence :: "pyval \<Rightarrow> bool" where
  "pair_sequence v = (case v of Tuple ps \<Rightarrow> list_all string_pair ps | _ \<Rightarrow> False)"

text \<open>The second elements of the pairs of a link list, in order.\<close>

definition urls_of :: "pyval \<Rightarrow> unicode list" where
  "urls_of v =
     (case v of
        Tuple ps \<Rightarrow> concat (map (\<lambda>p. case p of Tuple [a, Str s] \<Rightarrow> [s] | _ \<Rightarrow> []) ps)
      | _ \<Rightarrow> [])"

text \<open>
  The feed settings are the names that contain \<^verbatim>\<open>FEED\<close>: the block of the file
  under the comment on feed generation.
\<close>

definition feed_toggles :: "(string \<times> pyval) list \<Rightarrow> (string \<times> pyval) list" where
  "feed_toggles ns = filter (\<lambda>kv. sublist ''FEED'' (fst kv)) ns"

definition feed_value :: "pyval \<Rightarrow> bool" where
  "feed_value v = (v = NoneV \<or> nonempty_str v)"

subsection \<open>The syntax of URLs\<close>

text \<open>
  The generic syntax of RFC 3986 for a URL with an authority:
  \<^verbatim>\<open>scheme "://" host ...\<close>, where the scheme is a letter followed by letters,
  digits, \<^verbatim>\<open>+\<close>, \<^verbatim>\<open>-\<close> or \<^verbatim>\<open>.\<close>, the host is not empty, every character after the
  scheme is an unreserved or a reserved character or starts a percent-encoded octet.
  All of these are ASCII characters.
\<close>

definition alpha :: "nat \<Rightarrow> bool" where
  "alpha c = (0x41 \<le> c \<and> c \<le> 0x5A \<or> 0x61 \<le> c \<and> c \<le> 0x7A)"

definition digit :: "nat \<Rightarrow> bool" where
  "digit c = (0x30 \<le> c \<and> c \<le> 0x39)"

definition hexdig :: "nat \<Rightarrow> bool" where
  "hexdig c = (digit c \<or> 0x41 \<le> c \<and> c \<le> 0x46 \<or> 0x61 \<le> c \<and> c \<le> 0x66)"

definition scheme_char :: "nat \<Rightarrow> bool" where
  "scheme_char c = (alpha c \<or> digit c \<or> c \<in> set (u ''+-.''))"

definition uri_char :: "nat \<Rightarrow> bool" where
  "uri_char c =
     (alpha c \<or> digit c \<or> c \<in> set (u ''-._~:/?#[]@!$&()*+,;='') \<or> c = 0x27)"

fun uri_chars :: "unicode \<Rightarrow> bool" where
  "uri_chars [] = True"
| "uri_chars (c # cs) =
     (if c = 0x25
      then (case cs of h1 # h2 # r \<Rightarrow> hexdig h1 \<and> hexdig h2 \<and> uri_chars r | _ \<Rightarrow> False)
      else uri_char c \<and> uri_chars cs)"

definition parses_as_url :: "unicode \<Rightarrow> bool" where
  "parses_as_url s =
     (let scheme = takeWhile (\<lambda>c. c \<noteq> 0x3A) s;
          rest = dropWhile (\<lambda>c. c \<noteq> 0x3A) s;
          host = takeWhile (\<lambda>c. c \<notin> set (u ''/?#'')) (drop 3 rest)
      in (case scheme of [] \<Rightarrow> False | c # cs \<Rightarrow> alpha c \<and> list_all scheme_char cs)
         \<and> prefix (u ''://'') rest \<and> host \<noteq> [] \<and> uri_chars rest)"

subsection \<open>The names a module binds\<close>

fun targets :: "line \<Rightarrow> string list" where
  "targets (Assign x e) = [x]"
| "targets (FromImport m n) = [n]"
| "targets _ = []"

definition bound_names :: "line list \<Rightarrow> string list" where
  "bound_names ls = concat (map targets ls)"

subsection \<open>The loaded feed settings\<close>

definition feed_settings :: "(string \<times> pyval) list" where
  "feed_settings = (case load of None \<Rightarrow> [] | Some st \<Rightarrow> feed_toggles (namespace st))"

section \<open>Properties of the decoder and of execution\<close>

lemma utf8_decode_ascii: "list_all (\<lambda>b. b < 0x80) bs \<Longrightarrow> utf8_decode bs = Some bs"
  by (induction bs) simp_all

lemma eval_ascii:
  "list_all (\<lambda>c. of_char c < (0x80::nat)) s \<Longrightarrow> eval_expr f (StrLit p s) = (if p \<or> f then Some (Str (u s)) else Some (Bytes s))"
  by (simp add: bytes_of_def u_def utf8_decode_ascii list_all_iff)

lemma load_eq:
  "load = Some \<lparr>unicode_literals = True, namespace =
     [ (''unicode_literals'', Feature ''unicode_literals''),
       (''AUTHOR'', Str (u ''greg nicol'')),
       (''SITENAME'', Str (u ''INSERT INTO /dev/null ...'')),
       (''SITEURL'', Str []),
       (''PATH'', Str (u ''content'')),
       (''TIMEZONE'', Str (u ''Europe/Paris'')),
       (''DEFAULT_LANG'', Str (u ''en'')),
       (''FEED_ALL_ATOM'', NoneV),
       (''CATEGORY_FEED_ATOM'', NoneV),
       (''TRANSLATION_FEED_ATOM'', NoneV),
       (''AUTHOR_FEED_ATOM'', NoneV),
       (''AUTHOR_FEED_RSS'', NoneV),
       (''LINKS'', Tuple
          [ Tuple [Str (u ''Pelican''), Str (u ''http://getpelican.com/'')],
            Tuple [Str (u ''Python.org''), Str (u ''http://python.org/'')],
            Tuple [Str (u ''Jinja2''), Str (u ''http://jinja.pocoo.org/'')],
            Tuple [Str (u ''CloudFlare''),
                   Str (u ''https://www.cloudflare.com/'' @ [0x0E22, 0x0E07])] ]),
       (''SOCIAL'', Tuple
          [ Tuple [Str (u ''github''), Str (u ''https://github.com/gregn610'')],
            Tuple [Str (u ''linkedin''),
                   Str (u ''https://www.linkedin.com/in/greg-nicol-087a438/'')] ]),
       (''DEFAULT_PAGINATION'', Bool False),
       (''THEME'', Str (u ''themes/pelican-sober'')) ]\<rparr>"
  by (simp add: load_def pelicanconf_def fresh_def bind_name_def bytes_of_def u_def
      cont_def scalar_def)


lemma feed_settings_eq:
  "feed_settings =
     [ (''FEED_ALL_ATOM'', NoneV), (''CATEGORY_FEED_ATOM'', NoneV),
       (''TRANSLATION_FEED_ATOM'', NoneV), (''AUTHOR_FEED_ATOM'', NoneV),
       (''AUTHOR_FEED_RSS'', NoneV) ]"
  by (simp add: feed_settings_def load_eq feed_toggles_def sublist_code)

lemma exec_module_append:
  "exec_module (xs @ ys) st =
     (case exec_module xs st of None \<Rightarrow> None | Some s \<Rightarrow> exec_module ys s)"
  by (induction xs arbitrary: st) (simp_all split: option.splits)

lemma exec_line_other:
  assumes "exec_line l st = Some st'" and "k \<notin> set (targets l)"
  shows "map_of (namespace st') k = map_of (namespace st) k"
  using assms
  by (cases l) (auto simp: bind_name_def update_conv' split: if_splits option.splits)

lemma exec_module_other:
  assumes "exec_module ls st = Some st'" and "k \<notin> set (bound_names ls)"
  shows "map_of (namespace st') k = map_of (namespace st) k"
  using assms
proof (induction ls arbitrary: st)
  case Nil
  then show ?case by simp
next
  case (Cons l ls)
  from Cons.prems(1) obtain s where l: "exec_line l st = Some s"
    and ls: "exec_module ls s = Some st'"
    by (auto split: option.splits)
  from Cons.prems(2) have "k \<notin> set (targets l)" and "k \<notin> set (bound_names ls)"
    by (simp_all add: bound_names_def)
  with l ls Cons.IH show ?case
    by (simp add: exec_line_other)
qed

lemma bound_names_append: "bound_names (xs @ ys) = bound_names xs @ bound_names ys"
  by (simp add: bound_names_def)

lemma bound_names_pelicanconf:
  "bound_names pelicanconf =
     [''unicode_literals'', ''AUTHOR'', ''SITENAME'', ''SITEURL'', ''PATH'',
      ''TIMEZONE'', ''DEFAULT_LANG'', ''FEED_ALL_ATOM'', ''CATEGORY_FEED_ATOM'',
      ''TRANSLATION_FEED_ATOM'', ''AUTHOR_FEED_ATOM'', ''AUTHOR_FEED_RSS'',
      ''LINKS'', ''SOCIAL'', ''DEFAULT_PAGINATION'', ''THEME'']"
  by (simp add: bound_names_def pelicanconf_def)

lemma distinct_bound_names: "distinct (bound_names pelicanconf)"
  by (simp add: bound_names_pelicanconf)

section \<open>The settings of pelicanconf.py\<close>

text \<open>
  Claim C1. Each of the required settings \<^verbatim>\<open>AUTHOR\<close>, \<^verbatim>\<open>SITENAME\<close>, \<^verbatim>\<open>PATH\<close>,
  \<^verbatim>\<open>TIMEZONE\<close>, \<^verbatim>\<open>DEFAULT_LANG\<close> and \<^verbatim>\<open>THEME\<close> is bound by the loaded module, and
  its value is a string that is not empty.
\<close>
theorem required_settings_nonempty:
  "list_all (\<lambda>k. case setting k of Some v \<Rightarrow> nonempty_str v | None \<Rightarrow> False)
     [''AUTHOR'', ''SITENAME'', ''PATH'', ''TIMEZONE'', ''DEFAULT_LANG'', ''THEME'']"
  by (simp add: setting_def load_eq nonempty_str_def u_def)

text \<open>
  Claim C2. \<^verbatim>\<open>LINKS\<close> and \<^verbatim>\<open>SOCIAL\<close> are sequences of pairs of non-empty strings. The
  second element of every pair has the syntax of a URL, except the one of the fourth entry
  of \<^verbatim>\<open>LINKS\<close> (CloudFlare): it ends in the two code points U+0E22 and U+0E07, which are
  no URL characters. Without them the same string is a URL.
\<close>
theorem cloudflare_url_malformed:
  "(case setting ''LINKS'' of
      Some v \<Rightarrow> pair_sequence v \<and> map parses_as_url (urls_of v) = [True, True, True, False]
    | None \<Rightarrow> False)
   \<and> (case setting ''SOCIAL'' of
      Some v \<Rightarrow> pair_sequence v \<and> map parses_as_url (urls_of v) = [True, True]
    | None \<Rightarrow> False)
   \<and> parses_as_url (u ''https://www.cloudflare.com/'')"
  by (simp add: setting_def load_eq pair_sequence_def string_pair_def nonempty_str_def
      urls_of_def parses_as_url_def u_def alpha_def digit_def scheme_char_def uri_char_def)

text \<open>
  Claim C3, as stated: the module has exactly four feed settings, each disabled or a feed
  path. It has five, so the statement is false.
\<close>
theorem feed_toggles_not_four:
  "\<not> (length feed_settings = 4 \<and> list_all (\<lambda>kv. feed_value (snd kv)) feed_settings)"
  by (simp add: feed_settings_eq)

text \<open>
  Claim C3, amended: the module has exactly five feed settings, \<^verbatim>\<open>FEED_ALL_ATOM\<close>,
  \<^verbatim>\<open>CATEGORY_FEED_ATOM\<close>, \<^verbatim>\<open>TRANSLATION_FEED_ATOM\<close>, \<^verbatim>\<open>AUTHOR_FEED_ATOM\<close> and
  \<^verbatim>\<open>AUTHOR_FEED_RSS\<close>, and each of them is either \<^verbatim>\<open>None\<close> or a non-empty string.
\<close>
theorem five_feed_toggles:
  "map fst feed_settings =
     [''FEED_ALL_ATOM'', ''CATEGORY_FEED_ATOM'', ''TRANSLATION_FEED_ATOM'',
      ''AUTHOR_FEED_ATOM'', ''AUTHOR_FEED_RSS'']
   \<and> list_all (\<lambda>kv. feed_value (snd kv)) feed_settings"
  by (simp add: feed_settings_eq feed_value_def)

text \<open>
  Claim C4. The author is "greg nicol", the site name is "INSERT INTO /dev/null ...", the
  timezone is "Europe/Paris", and the default pagination is the boolean \<^verbatim>\<open>False\<close>.
\<close>
theorem exact_values:
  "setting ''AUTHOR'' = Some (Str (u ''greg nicol''))
   \<and> setting ''SITENAME'' = Some (Str (u ''INSERT INTO /dev/null ...''))
   \<and> setting ''TIMEZONE'' = Some (Str (u ''Europe/Paris''))
   \<and> setting ''DEFAULT_PAGINATION'' = Some (Bool False)"
  by (simp add: setting_def load_eq)

text \<open>
  Claim C5. Every feed setting of the loaded module is \<^verbatim>\<open>None\<close>: feed generation is
  disabled for all kinds of feed (and there are feed settings).
\<close>
theorem feeds_disabled:
  "feed_settings \<noteq> [] \<and> list_all (\<lambda>kv. snd kv = NoneV) feed_settings"
  by (simp add: feed_settings_eq)

text \<open>
  Claim C7. No name is bound twice by the module, and a binding never changes once it is
  made: whatever value a name has after any initial part of the module has run, it has in
  the loaded settings. The lines of the module have no form that removes a binding.
\<close>
theorem settings_bound_once_and_kept:
  "distinct (bound_names pelicanconf)
   \<and> (\<forall>pre post st k v.
         pelicanconf = pre @ post \<longrightarrow> exec_module pre fresh = Some st
         \<longrightarrow> map_of (namespace st) k = Some v \<longrightarrow> setting k = Some v)"
proof (intro conjI allI impI)
  show "distinct (bound_names pelicanconf)"
    by (rule distinct_bound_names)
next
  fix pre post st k v
  assume split: "pelicanconf = pre @ post"
    and pre: "exec_module pre fresh = Some st"
    and kv: "map_of (namespace st) k = Some v"
  obtain fin where fin: "load = Some fin"
    using load_eq by blast
  then have "exec_module (pre @ post) fresh = Some fin"
    unfolding load_def split .
  with pre have post: "exec_module post st = Some fin"
    by (simp add: exec_module_append)
  have "k \<in> set (bound_names pre)"
  proof (rule ccontr)
    assume "k \<notin> set (bound_names pre)"
    with pre have "map_of (namespace st) k = map_of (namespace fresh) k"
      by (rule exec_module_other)
    with kv show False
      by (simp add: fresh_def)
  qed
  moreover have "distinct (bound_names (pre @ post))"
    using distinct_bound_names unfolding split .
  then have "distinct (bound_names pre @ bound_names post)"
    by (simp only: bound_names_append)
  ultimately have "k \<notin> set (bound_names post)"
    by auto
  with post have "map_of (namespace fin) k = map_of (namespace st) k"
    by (rule exec_module_other)
  with kv have "map_of (namespace fin) k = Some v"
    by simp
  moreover have "setting k = map_of (namespace fin) k"
    unfolding setting_def fin by simp
  ultimately show "setting k = Some v"
    by simp
qed

text \<open>
  The theorem at the first five lines of the file: after them \<^verbatim>\<open>AUTHOR\<close> is bound, and
  the loaded settings have the same value.
\<close>
theorem settings_bound_once_and_kept_witness:
  "pelicanconf = take 5 pelicanconf @ drop 5 pelicanconf
   \<and> exec_module (take 5 pelicanconf) fresh
       = Some \<lparr>unicode_literals = True, namespace =
           [ (''unicode_literals'', Feature ''unicode_literals''),
             (''AUTHOR'', Str (u ''greg nicol'')) ]\<rparr>
   \<and> setting ''AUTHOR'' = Some (Str (u ''greg nicol''))"
proof -
  let ?st = "\<lparr>unicode_literals = True, namespace =
           [ (''unicode_literals'', Feature ''unicode_literals''),
             (''AUTHOR'', Str (u ''greg nicol'')) ]\<rparr>"
  have a: "pelicanconf = take 5 pelicanconf @ drop 5 pelicanconf"
    by simp
  have b: "exec_module (take 5 pelicanconf) fresh = Some ?st"
    by (simp add: pelicanconf_def fresh_def bind_name_def bytes_of_def u_def)
  have c: "map_of (namespace ?st) ''AUTHOR'' = Some (Str (u ''greg nicol''))"
    by simp
  from settings_bound_once_and_kept a b c
  have "setting ''AUTHOR'' = Some (Str (u ''greg nicol''))"
    by blast
  with a b show ?thesis
    by blast
qed

text \<open>
  Claim C8. \<^verbatim>\<open>SITEURL\<close> is a string, the empty one.
\<close>
theorem siteurl_empty: "setting ''SITEURL'' = Some (Str [])"
  by (simp add: setting_def load_eq)

text \<open>
  Claim C9. The line that would set \<^verbatim>\<open>RELATIVE_URLS\<close> is a comment of the file; the
  module binds no such name, and the loaded settings have no value for it.
\<close>
theorem relative_urls_absent:
  "Comment ''RELATIVE_URLS = True'' \<in> set pelicanconf
   \<and> ''RELATIVE_URLS'' \<notin> set (bound_names pelicanconf)
   \<and> setting ''RELATIVE_URLS'' = None"
  by (simp add: bound_names_pelicanconf setting_def load_eq) (simp add: pelicanconf_def)

text \<open>
  Claim C10. \<^verbatim>\<open>LINKS\<close> is the sequence of the four pairs for Pelican, Python.org,
  Jinja2 and CloudFlare, in this order, the URL of the last ending in the code points
  U+0E22 and U+0E07; \<^verbatim>\<open>SOCIAL\<close> is the sequence of the two pairs for github and
  linkedin, in this order.
\<close>
theorem links_and_social_exact:
  "setting ''LINKS'' = Some (Tuple
     [ Tuple [Str (u ''Pelican''), Str (u ''http://getpelican.com/'')],
       Tuple [Str (u ''Python.org''), Str (u ''http://python.org/'')],
       Tuple [Str (u ''Jinja2''), Str (u ''http://jinja.pocoo.org/'')],
       Tuple [Str (u ''CloudFlare''),
              Str (u ''https://www.cloudflare.com/'' @ [0x0E22, 0x0E07])] ])
   \<and> setting ''SOCIAL'' = Some (Tuple
     [ Tuple [Str (u ''github''), Str (u ''https://github.com/gregn610'')],
       Tuple [Str (u ''linkedin''),
              Str (u ''https://www.linkedin.com/in/greg-nicol-087a438/'')] ])"
  by (simp add: setting_def load_eq)

end
